theory Spec2Isabelle
  imports Main
begin

section \<open>Strings\<close>

text \<open>
  A well-formed JavaScript string is modelled by the list of bytes of its UTF-8 encoding (an
  Isabelle \<open>string\<close>). Comparison with \<open>===\<close>, \<open>Map\<close> lookup, concatenation in template
  literals, \<open>split(' ')\<close> and \<open>join(' ')\<close> act on that byte list exactly as they act on
  the code units, because the space character is the single byte 0x20 and never occurs inside
  the encoding of another code point.

  A string is falsy in JavaScript exactly when it is empty; an absent value
  (\<open>undefined\<close>) is \<open>None\<close> and is falsy too.
\<close>

definition truthy :: "string option \<Rightarrow> bool" where
  "truthy v = (case v of None \<Rightarrow> False | Some s \<Rightarrow> s \<noteq> [])"

text \<open>\<open>xs[i]\<close> of JavaScript: \<open>undefined\<close> out of range.\<close>

definition at :: "'a list \<Rightarrow> nat \<Rightarrow> 'a option" where
  "at xs i = (if i < length xs then Some (xs ! i) else None)"

text \<open>
  \<open>body.split(' ')\<close>: every single space is a boundary, so two spaces in a row, a leading
  or a trailing space give an empty token; the result always has at least one token. A
  character other than the space joins the first token of what follows it (the split of the
  rest is never empty, so the first branch of the \<open>case\<close> is never taken).
\<close>

fun split_space :: "string \<Rightarrow> string list" where
  "split_space [] = [[]]"
| "split_space (c # cs) =
     (if c = CHR '' '' then [] # split_space cs
      else (case split_space cs of [] \<Rightarrow> [[c]] | w # ws \<Rightarrow> (c # w) # ws))"

text \<open>\<open>parts.join(' ')\<close>: the empty list gives the empty string.\<close>

fun join_space :: "string list \<Rightarrow> string" where
  "join_space [] = []"
| "join_space [p] = p"
| "join_space (p # q # ps) = p @ CHR '' '' # join_space (q # ps)"

text \<open>
  \<open>matchKey = (s) => s.toLowerCase().replace(/[^a-z]/g, '')\<close>. After the replacement only
  the letters \<open>a\<close> to \<open>z\<close> remain, so of \<open>toLowerCase\<close> only the code points matter whose
  lower-case form contains one of these letters: the capitals \<open>A\<close> to \<open>Z\<close> (each becomes
  its small letter, which in ASCII sets bit 0x20), U+0130 (capital I with dot above, whose
  lower-case form is \<open>i\<close> followed by U+0307; its UTF-8 encoding is C4 B0) and U+212A (the
  Kelvin sign, whose lower-case form is \<open>k\<close>; its UTF-8 encoding is E2 84 AA). Every other
  byte belongs to a code point that is removed.
\<close>

definition is_upper :: "char \<Rightarrow> bool" where
  "is_upper c = (let n = of_char c :: nat in 65 \<le> n \<and> n \<le> 90)"

definition is_lower :: "char \<Rightarrow> bool" where
  "is_lower c = (let n = of_char c :: nat in 97 \<le> n \<and> n \<le> 122)"

definition to_lower :: "char \<Rightarrow> char" where
  "to_lower c = (case c of Char b0 b1 b2 b3 b4 b5 b6 b7 \<Rightarrow> Char b0 b1 b2 b3 b4 True b6 b7)"

fun matchKey :: "string \<Rightarrow> string" where
  "matchKey [] = []"
| "matchKey (c # cs) =
     (if is_upper c then to_lower c # matchKey cs
      else if is_lower c then c # matchKey cs
      else if c = CHR 0xC4 \<and> take 1 cs = [CHR 0xB0] then CHR ''i'' # matchKey cs
      else if c = CHR 0xE2 \<and> take 2 cs = [CHR 0x84, CHR 0xAA] then CHR ''k'' # matchKey cs
      else matchKey cs)"

text \<open>
  The normalisation in words, for comparison with \<open>matchKey\<close>: the string is put in lower
  case, and then every character other than the letters \<open>a\<close> to \<open>z\<close> is removed.
  \<open>lower_case_az\<close> is the lower-casing as far as it can produce one of these letters: a
  capital \<open>A\<close> to \<open>Z\<close> becomes the small letter at the same place of the alphabet,
  U+0130 (C4 B0) becomes \<open>i\<close> followed by U+0307 (CC 87), U+212A (E2 84 AA) becomes
  \<open>k\<close>; the other code points, whose lower-case forms have no letter \<open>a\<close> to \<open>z\<close>,
  are left as they are.
\<close>

definition small_letters :: string where
  "small_letters = ''abcdefghijklmnopqrstuvwxyz''"

definition capital_letters :: string where
  "capital_letters = ''ABCDEFGHIJKLMNOPQRSTUVWXYZ''"

definition small_of :: "char \<Rightarrow> char" where
  "small_of c = (case map_of (zip capital_letters small_letters) c of Some d \<Rightarrow> d | None \<Rightarrow> c)"

fun lower_case_az :: "string \<Rightarrow> string" where
  "lower_case_az [] = []"
| "lower_case_az (c # cs) =
     (if c = CHR 0xC4 \<and> take 1 cs = [CHR 0xB0] then
        CHR ''i'' # CHR 0xCC # CHR 0x87 # lower_case_az (drop 1 cs)
      else if c = CHR 0xE2 \<and> take 2 cs = [CHR 0x84, CHR 0xAA] then
        CHR ''k'' # lower_case_az (drop 2 cs)
      else small_of c # lower_case_az cs)"

definition keep_az :: "string \<Rightarrow> string" where
  "keep_az s = filter (\<lambda>c. c \<in> set small_letters) s"

definition normal_key :: "string \<Rightarrow> string" where
  "normal_key s = keep_az (lower_case_az s)"

section \<open>Data model of \<open>src/index.ts\<close>\<close>

text \<open>
  \<open>View\<close> is the union type of the source: the first variant has kind \<open>hls\<close>,
  \<open>embed\<close> or \<open>offline\<close>, an optional title, a url and the fill flag; the second is
  the kind \<open>live\<close> with an optional title and the two stream addresses.
\<close>

datatype view_kind = Hls | Embed | Offline

datatype View =
    UrlView view_kind "string option" string bool
  | LiveView "string option" string string

text \<open>
  The content of a state event: \<open>!view\<close> sends a \<open>View\<close>, \<open>!end\<close> sends the object
  literal \<open>{ kind: 'offline' }\<close>, which has no other field.
\<close>

datatype 'v state_content = ViewContent 'v | KindOffline

record Rooms =
  anchor :: string
  announcements :: string
  curators :: string

record Config =
  baseUrl :: string
  accessToken :: string
  userId :: string
  anchorUrl :: string
  apiUrl :: string
  rooms :: Rooms
  alias_map :: "string \<rightharpoonup> View"

text \<open>
  The field \<open>alias\<close> of the source is \<open>alias_map\<close> here (\<open>alias\<close> is a command of
  Isabelle). The next record has the three fields of \<open>package.json\<close> that the handler
  reads.
\<close>

record Pkg =
  pkg_name :: string
  pkg_version :: string
  pkg_homepage :: string

text \<open>An entry of the streamer directory, and the content of the message that refers to it.\<close>

record Streamer =
  slug :: string
  name :: string

record MessageContent =
  msgtype :: string
  body :: string
  format :: string
  net_woke_streamer :: Streamer

text \<open>
  What the handler reads of the event and of the room it is called with: \<open>getType()\<close>,
  \<open>getContent().body\<close>, \<open>getRoomId()\<close> and \<open>getSender()\<close> of the event; \<open>roomId\<close>
  and \<open>getMember\<close> of the room, where \<open>getMember\<close> answers \<open>null\<close> (\<open>None\<close>) for a
  user it does not know.
\<close>

record Event =
  getType :: string
  getContent_body :: "string option"
  getRoomId :: string
  getSender :: string

record RoomMember =
  powerLevel :: int

record Room =
  roomId :: string
  getMember :: "string \<Rightarrow> RoomMember option"

text \<open>
  The calls the handler makes, in the order it makes them. The last argument of
  \<open>sendNotice\<close> and \<open>sendMessage\<close> is the constant \<open>''\<close> at every call and is left
  out; \<open>sendStateEvent\<close> keeps its state key.
\<close>

datatype 'v effect =
    SendNotice string string
  | SendStateEvent string string "'v state_content" string
  | SetRoomTopic string string
  | SendMessage string MessageContent
  | Fetch string
  | ConsoleWarn

datatype js_error = TypeError

datatype outcome = Returned | Threw js_error

definition AnchorViewEventType :: string where
  "AnchorViewEventType = ''net.woke.anchor.view''"

text \<open>The template literal of the \<open>!bot\<close> notice; it starts with U+1F916 and a space.\<close>

definition bot_notice :: "Pkg \<Rightarrow> string" where
  "bot_notice pkg =
     [CHR 0xF0, CHR 0x9F, CHR 0xA4, CHR 0x96] @ '' '' @ pkg_name pkg @ '' v'' @ pkg_version pkg
       @ '' ('' @ pkg_homepage pkg @ '')''"

section \<open>The handler of \<open>src/index.ts\<close>\<close>

text \<open>
  Lines 187 to 194: the alias table is asked for the first argument; a \<open>View\<close> is an
  object and so never falsy, hence the fallback is taken exactly when the table has no entry.
  The arguments are \<open>parts[0]\<close> and \<open>parts[1]\<close>.
\<close>

definition resolve_view :: "(string \<rightharpoonup> View) \<Rightarrow> string \<Rightarrow> string option \<Rightarrow> View" where
  "resolve_view al p0 p1 =
     (case al p0 of
        Some view \<Rightarrow> view
      | None \<Rightarrow> UrlView Embed None p0 (p1 = Some ''fill''))"

text \<open>
  Line 197: \<open>view.title || ('url' in view ? `<${view.url}>` : 'unknown')\<close>. A missing
  or empty title is falsy.
\<close>

fun viewTitle :: "View \<Rightarrow> string" where
  "viewTitle (UrlView k t u f) = (if truthy t then the t else ''<'' @ u @ ''>'')"
| "viewTitle (LiveView t h d) = (if truthy t then the t else ''unknown'')"

text \<open>
  Lines 144 to 169, entered when the command is \<open>!streamer\<close> and \<open>parts[0]\<close> is truthy.
  The answer of the directory is an input: \<open>None\<close> when \<open>fetch\<close> or \<open>resp.json()\<close>
  throws, the list of entries otherwise.
\<close>

definition streamer_message :: "Config \<Rightarrow> Streamer \<Rightarrow> MessageContent" where
  "streamer_message cfg s =
     \<lparr> msgtype = ''m.notice'',
       body = name s @ '': '' @ anchorUrl cfg @ ''/streamers/'' @ slug s,
       format = ''net.woke.streamer'',
       net_woke_streamer = s \<rparr>"

definition streamer_branch ::
  "Config \<Rightarrow> (string \<Rightarrow> Streamer list option) \<Rightarrow> string \<Rightarrow> View effect list" where
  "streamer_branch cfg fetch_json p0 =
     (let u = apiUrl cfg @ ''/streamers/index.json'' in
      case fetch_json u of
        None \<Rightarrow> [Fetch u, ConsoleWarn]
      | Some streamers \<Rightarrow>
          (case find (\<lambda>s. matchKey (slug s) = matchKey p0) streamers of
             Some streamer \<Rightarrow> [Fetch u, SendMessage (anchor (rooms cfg)) (streamer_message cfg streamer)]
           | None \<Rightarrow> [Fetch u]))"

text \<open>Lines 177 to 214, reached in the curators room.\<close>

definition curator_commands :: "Config \<Rightarrow> Event \<Rightarrow> string \<Rightarrow> string list \<Rightarrow> View effect list" where
  "curator_commands cfg event cmd parts =
     (if cmd = ''!view'' \<or> cmd = ''!v'' then
        (if length parts = 0 then
           [SendNotice (getRoomId event) ''Please use !end to clear the view.'']
         else
           (let view = resolve_view (alias_map cfg) (hd parts) (at parts 1) in
            [SendStateEvent (anchor (rooms cfg)) AnchorViewEventType (ViewContent view) [],
             SendNotice (anchor (rooms cfg)) (''Now viewing: '' @ viewTitle view),
             SendNotice (curators (rooms cfg)) (''Now viewing: '' @ viewTitle view)]))
      else if cmd = ''!end'' \<or> cmd = ''!e'' then
        [SendStateEvent (anchor (rooms cfg)) AnchorViewEventType KindOffline [],
         SendNotice (curators (rooms cfg)) ''Broadcast ended.'']
      else if cmd = ''!announce'' \<or> cmd = ''!a'' then
        (let announceText = join_space parts in
         [SetRoomTopic (anchor (rooms cfg)) announceText,
          SendNotice (announcements (rooms cfg)) announceText,
          SendNotice (curators (rooms cfg)) ''Announcement sent.''])
      else [])"

text \<open>
  Lines 124 to 215, the listener of \<open>Room.timeline\<close>. \<open>parts.shift()\<close> takes the first
  token as the command and leaves the others in \<open>parts\<close>. The result is the list of the
  calls made while the event is handled (those after the \<open>await\<close> included) and the way
  the listener ends. On inputs of the declared types no statement of this listener throws;
  the outcome is part of the result because the other edition of the listener can throw.
\<close>

definition handler ::
  "Config \<Rightarrow> Pkg \<Rightarrow> (string \<Rightarrow> Streamer list option) \<Rightarrow> Event \<Rightarrow> Room
     \<Rightarrow> View effect list \<times> outcome" where
  "handler cfg pkg fetch_json event room =
     (if getType event \<noteq> ''m.room.message'' then ([], Returned)
      else if \<not> truthy (getContent_body event) then ([], Returned)
      else
        (let tokens = split_space (the (getContent_body event));
             cmd = hd tokens;
             parts = tl tokens in
         if cmd = ''!bot'' then ([SendNotice (getRoomId event) (bot_notice pkg)], Returned)
         else if cmd = ''!streamer'' \<and> truthy (at parts 0) then
           (streamer_branch cfg fetch_json (hd parts), Returned)
         else if roomId room \<noteq> curators (rooms cfg) then ([], Returned)
         else (curator_commands cfg event cmd parts, Returned)))"

section \<open>The handler of the edition with the power-level check\<close>

text \<open>
  The second source file of the handler (\<open>src/unnamed/part_001\<close>) is the edition without
  the streamer directory and without the kind \<open>live\<close>. Its \<open>View\<close> is a single object
  type, its configuration has no \<open>anchorUrl\<close> and no \<open>apiUrl\<close>, and its listener looks
  the sender up in the room before any curator-only command (lines 115 to 118). The names of
  this edition carry the suffix \<open>_p1\<close>.
\<close>

datatype View_p1 = View_p1 "string option" view_kind string bool

record Config_p1 =
  baseUrl_p1 :: string
  accessToken_p1 :: string
  userId_p1 :: string
  rooms_p1 :: Rooms
  alias_map_p1 :: "string \<rightharpoonup> View_p1"

definition resolve_view_p1 ::
  "(string \<rightharpoonup> View_p1) \<Rightarrow> string \<Rightarrow> string option \<Rightarrow> View_p1" where
  "resolve_view_p1 al p0 p1 =
     (case al p0 of
        Some view \<Rightarrow> view
      | None \<Rightarrow> View_p1 None Embed p0 (p1 = Some ''fill''))"

text \<open>Line 141: \<open>view.title || view.url\<close>.\<close>

fun viewTitle_p1 :: "View_p1 \<Rightarrow> string" where
  "viewTitle_p1 (View_p1 t k u f) = (if truthy t then the t else u)"

text \<open>Lines 120 to 156.\<close>

definition curator_commands_p1 ::
  "Config_p1 \<Rightarrow> Event \<Rightarrow> string \<Rightarrow> string list \<Rightarrow> View_p1 effect list" where
  "curator_commands_p1 cfg event cmd parts =
     (if cmd = ''!view'' \<or> cmd = ''!v'' then
        (if length parts = 0 then
           [SendNotice (getRoomId event) ''Please use !end to clear the view.'']
         else
           (let view = resolve_view_p1 (alias_map_p1 cfg) (hd parts) (at parts 1) in
            [SendStateEvent (anchor (rooms_p1 cfg)) AnchorViewEventType (ViewContent view) [],
             SendNotice (anchor (rooms_p1 cfg)) (''Now viewing: '' @ viewTitle_p1 view),
             SendNotice (curators (rooms_p1 cfg)) (''Now viewing: '' @ viewTitle_p1 view)]))
      else if cmd = ''!end'' \<or> cmd = ''!e'' then
        [SendStateEvent (anchor (rooms_p1 cfg)) AnchorViewEventType KindOffline [],
         SendNotice (curators (rooms_p1 cfg)) ''Broadcast ended.'']
      else if cmd = ''!announce'' \<or> cmd = ''!a'' then
        (let announceText = join_space parts in
         [SetRoomTopic (anchor (rooms_p1 cfg)) announceText,
          SendNotice (announcements (rooms_p1 cfg)) announceText,
          SendNotice (curators (rooms_p1 cfg)) ''Announcement sent.''])
      else [])"

text \<open>
  Lines 88 to 157. \<open>sender.powerLevel\<close> on line 116 reads a property of the answer of
  \<open>room.getMember\<close>; when that answer is \<open>null\<close> the read throws a \<open>TypeError\<close>, and
  nothing in the listener catches it.
\<close>

definition handler_p1 ::
  "Config_p1 \<Rightarrow> Pkg \<Rightarrow> Event \<Rightarrow> Room \<Rightarrow> View_p1 effect list \<times> outcome" where
  "handler_p1 cfg pkg event room =
     (if getType event \<noteq> ''m.room.message'' then ([], Returned)
      else if \<not> truthy (getContent_body event) then ([], Returned)
      else
        (let tokens = split_space (the (getContent_body event));
             cmd = hd tokens;
             parts = tl tokens in
         if cmd = ''!bot'' then ([SendNotice (getRoomId event) (bot_notice pkg)], Returned)
         else if roomId room \<noteq> curators (rooms_p1 cfg) then ([], Returned)
         else
           (case getMember room (getSender event) of
              None \<Rightarrow> ([], Threw TypeError)
            | Some sender \<Rightarrow>
                if powerLevel sender < 50 then ([], Returned)
                else (curator_commands_p1 cfg event cmd parts, Returned))))"

section \<open>Example inputs\<close>

text \<open>
  A configuration with the alias \<open>demo\<close> of the specification's scenario, in both editions,
  and the rooms, members and directory answers used by the examples below.
\<close>

definition example_rooms :: Rooms where
  "example_rooms =
     \<lparr> anchor = ''!anchor:woke.net'', announcements = ''!news:woke.net'',
       curators = ''!curators:woke.net'' \<rparr>"

definition demo_view :: View where
  "demo_view = UrlView Embed None ''https://x/demo'' False"

definition example_config :: Config where
  "example_config =
     \<lparr> baseUrl = ''https://matrix.woke.net'', accessToken = ''secret'',
       userId = ''@anchorbot:woke.net'', anchorUrl = ''https://woke.net'',
       apiUrl = ''https://api.woke.net'', rooms = example_rooms,
       alias_map = [''demo'' \<mapsto> demo_view] \<rparr>"

definition example_config_p1 :: Config_p1 where
  "example_config_p1 =
     \<lparr> baseUrl_p1 = ''https://matrix.woke.net'', accessToken_p1 = ''secret'',
       userId_p1 = ''@anchorbot:woke.net'', rooms_p1 = example_rooms,
       alias_map_p1 = [''demo'' \<mapsto> View_p1 None Embed ''https://x/demo'' False] \<rparr>"

definition example_pkg :: Pkg where
  "example_pkg =
     \<lparr> pkg_name = ''anchorbot'', pkg_version = ''1.0.0'',
       pkg_homepage = ''https://github.com/wokenet/anchorbot'' \<rparr>"

text \<open>A message event with the given body, sent by \<open>@alice:woke.net\<close> in the given room.\<close>

definition message_in :: "string \<Rightarrow> string \<Rightarrow> Event" where
  "message_in r b =
     \<lparr> getType = ''m.room.message'', getContent_body = Some b, getRoomId = r,
       getSender = ''@alice:woke.net'' \<rparr>"

text \<open>A room in which every sender has the given power level, and one that knows no member.\<close>

definition members_at :: "int \<Rightarrow> string \<Rightarrow> RoomMember option" where
  "members_at p u = Some \<lparr> powerLevel = p \<rparr>"

definition no_members :: "string \<Rightarrow> RoomMember option" where
  "no_members u = None"

definition room_with :: "string \<Rightarrow> (string \<Rightarrow> RoomMember option) \<Rightarrow> Room" where
  "room_with r g = \<lparr> roomId = r, getMember = g \<rparr>"

text \<open>A directory that cannot be fetched, and one with the entry of the scenario.\<close>

definition fetch_fails :: "string \<Rightarrow> Streamer list option" where
  "fetch_fails u = None"

definition example_directory :: "string \<Rightarrow> Streamer list option" where
  "example_directory u =
     Some [\<lparr> slug = ''x-y'', name = ''XY'' \<rparr>, \<lparr> slug = ''a-b-c'', name = ''ABC'' \<rparr>,
           \<lparr> slug = ''abc'', name = ''Second'' \<rparr>]"

text \<open>
  The name \<open>Jos\<close> followed by U+00E9 (e with acute accent, C3 A9), and a directory whose
  only entry has the slug \<open>jos\<close>.
\<close>

definition name_with_accent :: string where
  "name_with_accent = ''Jos'' @ [CHR 0xC3, CHR 0xA9]"

definition jos_directory :: "string \<Rightarrow> Streamer list option" where
  "jos_directory u = Some [\<lparr> slug = ''jos'', name = ''Jos'' \<rparr>]"

text \<open>The texts of the notices that a list of calls sends to one room, in order.\<close>

fun notices_to :: "string \<Rightarrow> 'v effect list \<Rightarrow> string list" where
  "notices_to r [] = []"
| "notices_to r (SendNotice r' t # es) = (if r' = r then t # notices_to r es else notices_to r es)"
| "notices_to r (e # es) = notices_to r es"

section \<open>Tokens\<close>

text \<open>
  The split of a body is never empty, and joining the tokens with single spaces gives the
  body back: no character is lost or added by \<open>split(' ')\<close>.
\<close>

lemma split_space_nonempty: "split_space s \<noteq> []"
  by (induction s) (auto split: list.splits)

lemma split_space_example:
  "split_space ''!view  a b '' = [''!view'', [], ''a'', ''b'', []]"
  by simp

lemma join_split_space: "join_space (split_space s) = s"
proof (induction s)
  case Nil
  then show ?case by simp
next
  case (Cons c cs)
  obtain w ws where sp: "split_space cs = w # ws"
    using split_space_nonempty [of cs] by (cases "split_space cs") auto
  show ?case
  proof (cases "c = CHR '' ''")
    case True
    with Cons sp show ?thesis by simp
  next
    case False
    with Cons sp show ?thesis by (cases ws) auto
  qed
qed

lemma join_space_Cons: "parts \<noteq> [] \<Longrightarrow> join_space (cmd # parts) = cmd @ '' '' @ join_space parts"
  by (cases parts) simp_all

lemma at_Suc: "at (x # xs) (Suc i) = at xs i"
  by (simp add: at_def)

lemma second_is_fill: "(at rest 0 = Some ''fill'') = (take 1 rest = [''fill''])"
  by (cases rest) (simp_all add: at_def)

section \<open>The normalisation of the streamer lookup\<close>

text \<open>
  \<open>matchKey\<close> yields small letters \<open>a\<close> to \<open>z\<close> only; on a string of ASCII
  characters it keeps the letters, in their order, and turns the capitals into small letters.
\<close>

lemma to_lower_upper: "is_upper c \<Longrightarrow> is_lower (to_lower c)"
  by (cases c) (auto simp add: is_upper_def is_lower_def to_lower_def Let_def of_bool_def split: if_splits)

lemma to_lower_lower: "is_lower c \<Longrightarrow> to_lower c = c"
  by (cases c) (auto simp add: is_lower_def to_lower_def Let_def of_bool_def split: if_splits)

lemma matchKey_letters: "c \<in> set (matchKey s) \<Longrightarrow> is_lower c"
proof (induction s)
  case Nil
  then show ?case by simp
next
  case (Cons a s)
  have i: "is_lower CHR ''i''" and k: "is_lower CHR ''k''" by (simp_all add: is_lower_def)
  from Cons i k show ?case
    by (auto simp add: to_lower_upper split: if_splits)
qed

lemma matchKey_ascii:
  "\<forall>c \<in> set s. (of_char c :: nat) < 128 \<Longrightarrow>
     matchKey s = map to_lower (filter (\<lambda>c. is_upper c \<or> is_lower c) s)"
  by (induction s) (auto simp add: to_lower_lower)

lemma matchKey_examples:
  "matchKey ''a-b-c'' = ''abc''" "matchKey ''ABC'' = ''abc''" "matchKey ''Dr. Who 42!'' = ''drwho''"
  "matchKey [CHR 0xE2, CHR 0x84, CHR 0xAA, CHR 0xC3, CHR 0xA9, CHR 0xC4, CHR 0xB0] = ''ki''"
  by (simp_all add: is_upper_def is_lower_def to_lower_def)

text \<open>
  \<open>matchKey\<close> is the normalisation in words: lower-casing, then removing every character
  other than the letters \<open>a\<close> to \<open>z\<close>.
\<close>

lemma is_upper_capital: "is_upper c = (c \<in> set capital_letters)"
  by (cases c) (auto simp add: is_upper_def capital_letters_def Let_def of_bool_def split: if_splits)

lemma is_lower_small: "is_lower c = (c \<in> set small_letters)"
  by (cases c) (auto simp add: is_lower_def small_letters_def Let_def of_bool_def split: if_splits)

lemma small_of_capital: "c \<in> set capital_letters \<Longrightarrow> small_of c = to_lower c"
  by (auto simp add: capital_letters_def small_letters_def small_of_def to_lower_def)

lemma small_of_other: "c \<notin> set capital_letters \<Longrightarrow> small_of c = c"
  by (auto simp add: capital_letters_def small_letters_def small_of_def)

lemma keep_az_Cons:
  "keep_az (c # s) = (if c \<in> set small_letters then c # keep_az s else keep_az s)"
  by (simp add: keep_az_def)

lemma to_lower_small: "c \<in> set capital_letters \<Longrightarrow> to_lower c \<in> set small_letters"
  using to_lower_upper [of c] by (simp add: is_upper_capital is_lower_small)

lemma matchKey_normal_key: "matchKey s = normal_key s"
proof (induction s rule: lower_case_az.induct)
  case 1
  show ?case by (simp add: normal_key_def keep_az_def)
next
  case (2 c cs)
  have i: "CHR ''i'' \<in> set small_letters" and k: "CHR ''k'' \<in> set small_letters"
    and n1: "CHR 0xCC \<notin> set small_letters" and n2: "CHR 0x87 \<notin> set small_letters"
    by (simp_all add: small_letters_def)
  have u: "\<not> is_upper (CHR 0xC4)" "\<not> is_lower (CHR 0xC4)" "\<not> is_upper (CHR 0xE2)"
    "\<not> is_lower (CHR 0xE2)" "\<not> is_upper (CHR 0xB0)" "\<not> is_lower (CHR 0xB0)"
    "\<not> is_upper (CHR 0x84)" "\<not> is_lower (CHR 0x84)" "\<not> is_upper (CHR 0xAA)"
    "\<not> is_lower (CHR 0xAA)"
    by (simp_all add: is_upper_def is_lower_def)
  show ?case
  proof (cases "c = CHR 0xC4 \<and> take 1 cs = [CHR 0xB0]")
    case True
    then obtain cs' where cs: "cs = CHR 0xB0 # cs'" by (cases cs) auto
    from True 2(1) cs have "matchKey cs' = normal_key cs'" by simp
    with True cs u i n1 n2 show ?thesis
      by (simp add: normal_key_def keep_az_Cons)
  next
    case F1: False
    show ?thesis
    proof (cases "c = CHR 0xE2 \<and> take 2 cs = [CHR 0x84, CHR 0xAA]")
      case True
      then obtain cs' where cs: "cs = CHR 0x84 # CHR 0xAA # cs'"
        by (cases cs; cases "tl cs") auto
      from F1 True 2(2) cs have "matchKey cs' = normal_key cs'" by simp
      with True cs u k show ?thesis
        by (simp add: normal_key_def keep_az_Cons)
    next
      case F2: False
      from F1 F2 2(3) have ih: "matchKey cs = normal_key cs" by simp
      have lc: "lower_case_az (c # cs) = small_of c # lower_case_az cs"
        by (subst lower_case_az.simps) (simp only: F1 F2 if_False)
      have mk: "matchKey (c # cs) =
          (if is_upper c then to_lower c # matchKey cs
           else if is_lower c then c # matchKey cs else matchKey cs)"
        by (subst matchKey.simps) (simp only: F1 F2 if_False)
      have step: "normal_key (c # cs) =
          (if small_of c \<in> set small_letters then small_of c # normal_key cs else normal_key cs)"
        by (simp only: normal_key_def lc keep_az_Cons)
      show ?thesis
      proof (cases "c \<in> set capital_letters")
        case True
        then show ?thesis
          by (simp only: mk step ih is_upper_capital small_of_capital to_lower_small if_True)
      next
        case False
        note so = small_of_other [OF False]
        from False show ?thesis
          by (simp only: mk step ih is_upper_capital is_lower_small so if_False)
      qed
    qed
  qed
qed

section \<open>The branches of the two handlers\<close>

text \<open>
  For a message event whose body splits into a non-empty command token and its arguments,
  the handler is the chain of its branches.
\<close>

lemma handler_message:
  assumes "getType event = ''m.room.message''"
    and "getContent_body event = Some b"
    and "split_space b = cmd # parts"
    and "cmd \<noteq> []"
  shows "handler cfg pkg fetch_json event room =
     (if cmd = ''!bot'' then ([SendNotice (getRoomId event) (bot_notice pkg)], Returned)
      else if cmd = ''!streamer'' \<and> truthy (at parts 0) then
        (streamer_branch cfg fetch_json (hd parts), Returned)
      else if roomId room \<noteq> curators (rooms cfg) then ([], Returned)
      else (curator_commands cfg event cmd parts, Returned))"
proof -
  from assms(3,4) have "b \<noteq> []" by auto
  with assms show ?thesis by (simp add: handler_def truthy_def)
qed

lemma handler_p1_message:
  assumes "getType event = ''m.room.message''"
    and "getContent_body event = Some b"
    and "split_space b = cmd # parts"
    and "cmd \<noteq> []"
  shows "handler_p1 cfg pkg event room =
     (if cmd = ''!bot'' then ([SendNotice (getRoomId event) (bot_notice pkg)], Returned)
      else if roomId room \<noteq> curators (rooms_p1 cfg) then ([], Returned)
      else
        (case getMember room (getSender event) of
           None \<Rightarrow> ([], Threw TypeError)
         | Some sender \<Rightarrow>
             if powerLevel sender < 50 then ([], Returned)
             else (curator_commands_p1 cfg event cmd parts, Returned)))"
proof -
  from assms(3,4) have "b \<noteq> []" by auto
  with assms show ?thesis by (simp add: handler_p1_def truthy_def split: option.split)
qed

lemma handler_curators:
  assumes "getType event = ''m.room.message''"
    and "getContent_body event = Some b"
    and "split_space b = cmd # parts"
    and "cmd \<noteq> []" and "cmd \<noteq> ''!bot''" and "cmd \<noteq> ''!streamer''"
    and "roomId room = curators (rooms cfg)"
  shows "handler cfg pkg fetch_json event room = (curator_commands cfg event cmd parts, Returned)"
  unfolding handler_message [OF assms(1-4)] using assms(5-7) by simp

lemma handler_streamer:
  assumes "getType event = ''m.room.message''"
    and "getContent_body event = Some b"
    and "split_space b = ''!streamer'' # nm # rest"
    and "nm \<noteq> []"
  shows "handler cfg pkg fetch_json event room = (streamer_branch cfg fetch_json nm, Returned)"
proof -
  have ne: "''!streamer'' \<noteq> []" by simp
  show ?thesis
    unfolding handler_message [OF assms(1-3) ne] using assms(4)
    by (simp add: truthy_def at_def)
qed

text \<open>
  The handler of \<open>src/index.ts\<close> never calls \<open>getMember\<close>: its result does not depend
  on the members of the room, and it never throws.
\<close>

lemma handler_ignores_members:
  "handler cfg pkg fetch_json event (room\<lparr>getMember := g\<rparr>) = handler cfg pkg fetch_json event room"
  by (simp add: handler_def Let_def)

lemma handler_returns: "snd (handler cfg pkg fetch_json event room) = Returned"
  by (simp add: handler_def Let_def)

text \<open>
  In the edition with the power-level check, every message of the curators room other than
  \<open>!bot\<close> from a sender the room does not know ends in the \<open>TypeError\<close>.
\<close>

lemma handler_p1_unknown_member:
  assumes "getType event = ''m.room.message''"
    and "getContent_body event = Some b"
    and "split_space b = cmd # parts"
    and "cmd \<noteq> []" and "cmd \<noteq> ''!bot''"
    and "roomId room = curators (rooms_p1 cfg)"
    and "getMember room (getSender event) = None"
  shows "handler_p1 cfg pkg event room = ([], Threw TypeError)"
  unfolding handler_p1_message [OF assms(1-4)] using assms(5-7) by simp

text \<open>
The calls of each curator-only command of \<open>src/index.ts\<close>.
\<close>

lemma curator_view_args:
  assumes "cmd = ''!view'' \<or> cmd = ''!v''"
  shows "curator_commands cfg event cmd (tok # rest) =
     [SendStateEvent (anchor (rooms cfg)) AnchorViewEventType
        (ViewContent (resolve_view (alias_map cfg) tok (at rest 0))) [],
      SendNotice (anchor (rooms cfg))
        (''Now viewing: '' @ viewTitle (resolve_view (alias_map cfg) tok (at rest 0))),
      SendNotice (curators (rooms cfg))
        (''Now viewing: '' @ viewTitle (resolve_view (alias_map cfg) tok (at rest 0)))]"
  using assms by (simp add: curator_commands_def Let_def at_Suc)

lemma curator_view_no_args:
  assumes "cmd = ''!view'' \<or> cmd = ''!v''"
  shows "curator_commands cfg event cmd [] =
     [SendNotice (getRoomId event) ''Please use !end to clear the view.'']"
  using assms by (simp add: curator_commands_def)

lemma curator_end:
  assumes "cmd = ''!end'' \<or> cmd = ''!e''"
  shows "curator_commands cfg event cmd parts =
     [SendStateEvent (anchor (rooms cfg)) AnchorViewEventType KindOffline [],
      SendNotice (curators (rooms cfg)) ''Broadcast ended.'']"
proof -
  from assms have "\<not> (cmd = ''!view'' \<or> cmd = ''!v'')" by auto
  with assms show ?thesis by (simp add: curator_commands_def)
qed

lemma curator_announce:
  assumes "cmd = ''!announce'' \<or> cmd = ''!a''"
  shows "curator_commands cfg event cmd parts =
     [SetRoomTopic (anchor (rooms cfg)) (join_space parts),
      SendNotice (announcements (rooms cfg)) (join_space parts),
      SendNotice (curators (rooms cfg)) ''Announcement sent.'']"
proof -
  from assms have "\<not> (cmd = ''!view'' \<or> cmd = ''!v'')" and "\<not> (cmd = ''!end'' \<or> cmd = ''!e'')"
    by auto
  with assms show ?thesis by (simp add: curator_commands_def Let_def)
qed

section \<open>The claims\<close>

subsection \<open>C1: a sender below power level 50\<close>

text \<open>
  C1, as amended. In the edition that looks the sender up (\<open>handler_p1\<close>), every
  curator-only command (\<open>!view\<close>, \<open>!v\<close>, \<open>!end\<close>, \<open>!e\<close>, \<open>!announce\<close>,
  \<open>!a\<close>) sent in the curators room by a sender whose member is found with a power level
  below 50 is a silent no-op: the handler returns and has made no call at all, so no state
  event is published, no topic is changed and no notice is sent.
\<close>

theorem C1_low_power_noop_p1:
  assumes "getType event = ''m.room.message''"
    and "getContent_body event = Some b"
    and "split_space b = cmd # parts"
    and "cmd \<in> {''!view'', ''!v'', ''!end'', ''!e'', ''!announce'', ''!a''}"
    and "roomId room = curators (rooms_p1 cfg)"
    and "getMember room (getSender event) = Some sender"
    and "powerLevel sender < 50"
  shows "handler_p1 cfg pkg event room = ([], Returned)"
proof -
  from assms(4) have ne: "cmd \<noteq> []" and nb: "cmd \<noteq> ''!bot''" by auto
  show ?thesis
    unfolding handler_p1_message [OF assms(1-3) ne] using nb assms(5-7) by simp
qed

text \<open>
  The witness of C1: \<open>!view demo\<close> in the curators room from a sender of power level 49.
\<close>

theorem C1_low_power_noop_p1_witness:
  "handler_p1 example_config_p1 example_pkg (message_in ''!curators:woke.net'' ''!view demo'')
     (room_with ''!curators:woke.net'' (members_at 49)) = ([], Returned)"
  using C1_low_power_noop_p1 [of "message_in ''!curators:woke.net'' ''!view demo''" "''!view demo''"
      "''!view''" "[''demo'']" "room_with ''!curators:woke.net'' (members_at 49)" example_config_p1
      "\<lparr> powerLevel = 49 \<rparr>" example_pkg]
  by (simp add: message_in_def room_with_def members_at_def example_config_p1_def example_rooms_def)

text \<open>
  The counterexample of C1: the handler of \<open>src/index.ts\<close> has no power-level check.
  \<open>!end\<close> sent in the curators room by a sender of power level 0 publishes the offline
  state event and sends the notice.
\<close>

theorem C1_counterexample:
  "getMember (room_with ''!curators:woke.net'' (members_at 0)) ''@alice:woke.net'' = Some \<lparr> powerLevel = 0 \<rparr>
   \<and> handler example_config example_pkg fetch_fails (message_in ''!curators:woke.net'' ''!end'')
     (room_with ''!curators:woke.net'' (members_at 0)) =
     ([SendStateEvent ''!anchor:woke.net'' ''net.woke.anchor.view'' KindOffline [],
       SendNotice ''!curators:woke.net'' ''Broadcast ended.''], Returned)"
  by (simp add: handler_def truthy_def message_in_def room_with_def members_at_def example_config_def
      example_rooms_def curator_commands_def AnchorViewEventType_def)

subsection \<open>C2: a sender the room does not know\<close>

text \<open>
  C2, evaluated at the failing input. In the edition that looks the sender up, \<open>!view demo\<close>
  sent in the curators room by a sender for whom \<open>getMember\<close> answers \<open>null\<close> makes the
  handler throw a \<open>TypeError\<close> (before any call is made), where the claim says that the
  handler never throws.
\<close>

theorem C2_unknown_member_throws_p1:
  "handler_p1 example_config_p1 example_pkg (message_in ''!curators:woke.net'' ''!view demo'')
     (room_with ''!curators:woke.net'' no_members) = ([], Threw TypeError)"
  by (simp add: handler_p1_def truthy_def message_in_def room_with_def no_members_def
      example_config_p1_def example_rooms_def)

subsection \<open>C3: alias resolution\<close>

text \<open>
  C3. For \<open>!view\<close> or \<open>!v\<close> with at least one argument, accepted in the curators room:
  when the first argument is the name of a configured alias, the resolved view is the
  configured \<open>View\<close>, unchanged; when it is not in the alias table, the resolved view is
  an \<open>embed\<close> view without title whose url is the argument and whose fill flag is true
  exactly when the second argument is the string \<open>fill\<close>; and the resolved view is the
  content of the state event that the handler publishes first.
\<close>

theorem C3_alias_resolution:
  assumes "getType event = ''m.room.message''"
    and "getContent_body event = Some b"
    and "split_space b = cmd # tok # rest"
    and "cmd \<in> {''!view'', ''!v''}"
    and "roomId room = curators (rooms cfg)"
  shows "(alias_map cfg tok = Some v \<longrightarrow> resolve_view (alias_map cfg) tok (at rest 0) = v)
    \<and> (alias_map cfg tok = None \<longrightarrow>
          resolve_view (alias_map cfg) tok (at rest 0) =
            UrlView Embed None tok (take 1 rest = [''fill'']))
    \<and> hd (fst (handler cfg pkg fetch_json event room)) =
          SendStateEvent (anchor (rooms cfg)) AnchorViewEventType
            (ViewContent (resolve_view (alias_map cfg) tok (at rest 0))) []"
proof -
  from assms(4) have ne: "cmd \<noteq> []" and nb: "cmd \<noteq> ''!bot''" and ns: "cmd \<noteq> ''!streamer''"
    by auto
  from assms(4) have v: "cmd = ''!view'' \<or> cmd = ''!v''" by simp
  have "hd (fst (handler cfg pkg fetch_json event room)) =
          SendStateEvent (anchor (rooms cfg)) AnchorViewEventType
            (ViewContent (resolve_view (alias_map cfg) tok (at rest 0))) []"
    by (simp add: handler_curators [OF assms(1-3) ne nb ns assms(5)] curator_view_args [OF v])
  then show ?thesis
    by (simp add: resolve_view_def second_is_fill)
qed

text \<open>
  The witness of C3: the alias \<open>demo\<close> resolves to its configured view, and
  \<open>!view https://y/z fill\<close> publishes the fallback view with the fill flag set.
\<close>

theorem C3_alias_resolution_witness:
  "resolve_view (alias_map example_config) ''demo'' (at [] 0) = demo_view
   \<and> resolve_view (alias_map example_config) ''https://y/z'' (at [''fill''] 0) =
       UrlView Embed None ''https://y/z'' True
   \<and> hd (fst (handler example_config example_pkg fetch_fails
         (message_in ''!curators:woke.net'' ''!view https://y/z fill'')
         (room_with ''!curators:woke.net'' no_members))) =
       SendStateEvent ''!anchor:woke.net'' ''net.woke.anchor.view''
         (ViewContent (UrlView Embed None ''https://y/z'' True)) []"
proof -
  let ?cur = "''!curators:woke.net''"
  let ?room = "room_with ?cur no_members"
  have r: "roomId ?room = curators (rooms example_config)"
    by (simp add: room_with_def example_config_def example_rooms_def)
  have c: "''!view'' \<in> {''!view'', ''!v''}" by simp
  have t: "\<And>b. getType (message_in ?cur b) = ''m.room.message''"
    and g: "\<And>b. getContent_body (message_in ?cur b) = Some b"
    by (simp_all add: message_in_def)
  have s1: "split_space ''!view demo'' = ''!view'' # ''demo'' # []" by simp
  have s2: "split_space ''!view https://y/z fill'' = ''!view'' # ''https://y/z'' # [''fill'']"
    by simp
  have a1: "alias_map example_config ''demo'' = Some demo_view"
    and a2: "alias_map example_config ''https://y/z'' = None"
    by (simp_all add: example_config_def)
  note w1 = C3_alias_resolution [OF t g s1 c r, of demo_view example_pkg fetch_fails]
  note w2 = C3_alias_resolution [OF t g s2 c r, of demo_view example_pkg fetch_fails]
  note e1 = w1 [THEN conjunct1, rule_format, OF a1]
  note e2 = w2 [THEN conjunct2, THEN conjunct1, rule_format, OF a2]
  note e3 = w2 [THEN conjunct2, THEN conjunct2]
  have k: "anchor (rooms example_config) = ''!anchor:woke.net''"
    by (simp add: example_config_def example_rooms_def)
  show ?thesis
    unfolding e3 e2 k AnchorViewEventType_def using e1 e2 by simp
qed

subsection \<open>C4: the notice of a successful view command\<close>

text \<open>
  C4, as amended. For \<open>!view\<close> or \<open>!v\<close> accepted in the curators room whose first
  argument is an alias of an \<open>embed\<close> view with url \<open>u\<close> and no title, with the anchor
  room and the curators room distinct: the handler publishes the view and then sends one
  notice to the anchor room and one to the curators room, and the text of both is
  \<open>Now viewing: <u>\<close>, the url between angle brackets.
\<close>

theorem C4_view_notice:
  assumes "getType event = ''m.room.message''"
    and "getContent_body event = Some b"
    and "split_space b = cmd # tok # rest"
    and "cmd \<in> {''!view'', ''!v''}"
    and "roomId room = curators (rooms cfg)"
    and "alias_map cfg tok = Some (UrlView Embed None u f)"
    and "anchor (rooms cfg) \<noteq> curators (rooms cfg)"
  shows "handler cfg pkg fetch_json event room =
      ([SendStateEvent (anchor (rooms cfg)) AnchorViewEventType
          (ViewContent (UrlView Embed None u f)) [],
        SendNotice (anchor (rooms cfg)) (''Now viewing: <'' @ u @ ''>''),
        SendNotice (curators (rooms cfg)) (''Now viewing: <'' @ u @ ''>'')], Returned)
    \<and> notices_to (anchor (rooms cfg)) (fst (handler cfg pkg fetch_json event room)) =
        [''Now viewing: <'' @ u @ ''>'']
    \<and> notices_to (curators (rooms cfg)) (fst (handler cfg pkg fetch_json event room)) =
        [''Now viewing: <'' @ u @ ''>'']"
proof -
  from assms(4) have ne: "cmd \<noteq> []" and nb: "cmd \<noteq> ''!bot''" and ns: "cmd \<noteq> ''!streamer''"
    by auto
  from assms(4) have v: "cmd = ''!view'' \<or> cmd = ''!v''" by simp
  have "handler cfg pkg fetch_json event room =
      ([SendStateEvent (anchor (rooms cfg)) AnchorViewEventType
          (ViewContent (UrlView Embed None u f)) [],
        SendNotice (anchor (rooms cfg)) (''Now viewing: <'' @ u @ ''>''),
        SendNotice (curators (rooms cfg)) (''Now viewing: <'' @ u @ ''>'')], Returned)"
    using assms(6)
    by (simp add: handler_curators [OF assms(1-3) ne nb ns assms(5)] curator_view_args [OF v]
        resolve_view_def truthy_def)
  with assms(7) show ?thesis by simp
qed

text \<open>
  The witness of C4: the scenario of the specification, \<open>!view demo\<close> with the alias
  \<open>demo\<close> for \<open>https://x/demo\<close>.
\<close>

theorem C4_view_notice_witness:
  "handler example_config example_pkg fetch_fails (message_in ''!curators:woke.net'' ''!view demo'')
     (room_with ''!curators:woke.net'' (members_at 50)) =
     ([SendStateEvent ''!anchor:woke.net'' ''net.woke.anchor.view''
         (ViewContent (UrlView Embed None ''https://x/demo'' False)) [],
       SendNotice ''!anchor:woke.net'' ''Now viewing: <https://x/demo>'',
       SendNotice ''!curators:woke.net'' ''Now viewing: <https://x/demo>''], Returned)"
proof -
  let ?cur = "''!curators:woke.net''"
  let ?room = "room_with ?cur (members_at 50)"
  have r: "roomId ?room = curators (rooms example_config)"
    by (simp add: room_with_def example_config_def example_rooms_def)
  have c: "''!view'' \<in> {''!view'', ''!v''}" by simp
  have t: "getType (message_in ?cur ''!view demo'') = ''m.room.message''"
    and g: "getContent_body (message_in ?cur ''!view demo'') = Some ''!view demo''"
    by (simp_all add: message_in_def)
  have s: "split_space ''!view demo'' = ''!view'' # ''demo'' # []" by simp
  have a: "alias_map example_config ''demo'' = Some (UrlView Embed None ''https://x/demo'' False)"
    by (simp add: example_config_def demo_view_def)
  have d: "anchor (rooms example_config) \<noteq> curators (rooms example_config)"
    by (simp add: example_config_def example_rooms_def)
  from C4_view_notice [OF t g s c r a d, of example_pkg fetch_fails]
  show ?thesis
    by (simp add: example_config_def example_rooms_def AnchorViewEventType_def)
qed

text \<open>
  The counterexample of C4: in that scenario the notices that the anchor room receives are
  not the single notice \<open>Now viewing: https://x/demo\<close>.
\<close>

theorem C4_counterexample:
  "notices_to ''!anchor:woke.net''
     (fst (handler example_config example_pkg fetch_fails
        (message_in ''!curators:woke.net'' ''!view demo'')
        (room_with ''!curators:woke.net'' (members_at 50))))
   \<noteq> [''Now viewing: https://x/demo'']"
  by (simp add: handler_def truthy_def message_in_def room_with_def example_config_def
      example_rooms_def curator_commands_def resolve_view_def demo_view_def)

subsection \<open>C5: the view command without arguments\<close>

text \<open>
  C5. For \<open>!view\<close> or \<open>!v\<close> with zero argument tokens, accepted in the curators room,
  the handler makes exactly one call: the notice \<open>Please use !end to clear the view.\<close> to
  the room of the event. No state event is published and no topic is changed.
\<close>

theorem C5_view_without_arguments:
  assumes "getType event = ''m.room.message''"
    and "getContent_body event = Some b"
    and "split_space b = [cmd]"
    and "cmd \<in> {''!view'', ''!v''}"
    and "roomId room = curators (rooms cfg)"
  shows "handler cfg pkg fetch_json event room =
      ([SendNotice (getRoomId event) ''Please use !end to clear the view.''], Returned)"
proof -
  from assms(4) have ne: "cmd \<noteq> []" and nb: "cmd \<noteq> ''!bot''" and ns: "cmd \<noteq> ''!streamer''"
    by auto
  from assms(4) have v: "cmd = ''!view'' \<or> cmd = ''!v''" by simp
  show ?thesis
    by (simp add: handler_curators [OF assms(1-3) ne nb ns assms(5)] curator_view_no_args [OF v])
qed

text \<open>
The witness of C5: the body \<open>!v\<close> in the curators room.
\<close>

theorem C5_view_without_arguments_witness:
  "handler example_config example_pkg fetch_fails (message_in ''!curators:woke.net'' ''!v'')
     (room_with ''!curators:woke.net'' (members_at 100)) =
     ([SendNotice ''!curators:woke.net'' ''Please use !end to clear the view.''], Returned)"
proof -
  let ?cur = "''!curators:woke.net''"
  let ?ev = "message_in ?cur ''!v''"
  let ?room = "room_with ?cur (members_at 100)"
  have r: "roomId ?room = curators (rooms example_config)"
    by (simp add: room_with_def example_config_def example_rooms_def)
  have c: "''!v'' \<in> {''!view'', ''!v''}" by simp
  have t: "getType ?ev = ''m.room.message''" and g: "getContent_body ?ev = Some ''!v''"
    by (simp_all add: message_in_def)
  have s: "split_space ''!v'' = [''!v'']" by simp
  from C5_view_without_arguments [OF t g s c r, of example_pkg fetch_fails]
  show ?thesis by (simp add: message_in_def)
qed

subsection \<open>C6: curator-only commands outside the curators room\<close>

text \<open>
  C6. For every curator-only command arriving in a room other than the configured curators
  room, the handler makes no call: no state event, no notice, whatever the members of the
  room and their power levels are.
\<close>

theorem C6_outside_curators_room:
  assumes "getType event = ''m.room.message''"
    and "getContent_body event = Some b"
    and "split_space b = cmd # parts"
    and "cmd \<in> {''!view'', ''!v'', ''!end'', ''!e'', ''!announce'', ''!a''}"
    and "roomId room \<noteq> curators (rooms cfg)"
  shows "handler cfg pkg fetch_json event room = ([], Returned)"
proof -
  from assms(4) have ne: "cmd \<noteq> []" and nb: "cmd \<noteq> ''!bot''" and ns: "cmd \<noteq> ''!streamer''"
    by auto
  show ?thesis
    unfolding handler_message [OF assms(1-3) ne] using nb ns assms(5) by simp
qed

text \<open>
The witness of C6: \<open>!end\<close> in the anchor room from a sender of power level 100.
\<close>

theorem C6_outside_curators_room_witness:
  "handler example_config example_pkg fetch_fails (message_in ''!anchor:woke.net'' ''!end'')
     (room_with ''!anchor:woke.net'' (members_at 100)) = ([], Returned)"
proof -
  let ?ev = "message_in ''!anchor:woke.net'' ''!end''"
  let ?room = "room_with ''!anchor:woke.net'' (members_at 100)"
  have r: "roomId ?room \<noteq> curators (rooms example_config)"
    by (simp add: room_with_def example_config_def example_rooms_def)
  have c: "''!end'' \<in> {''!view'', ''!v'', ''!end'', ''!e'', ''!announce'', ''!a''}" by simp
  have t: "getType ?ev = ''m.room.message''" and g: "getContent_body ?ev = Some ''!end''"
    by (simp_all add: message_in_def)
  have s: "split_space ''!end'' = ''!end'' # []" by simp
  from C6_outside_curators_room [OF t g s c r, of example_pkg fetch_fails]
  show ?thesis .
qed

subsection \<open>C7: the end command\<close>

text \<open>
  C7. For \<open>!end\<close> or \<open>!e\<close> accepted in the curators room, with any arguments, the
  handler publishes exactly one state event, of type \<open>net.woke.anchor.view\<close> with the empty
  state key and the content \<open>{kind: offline}\<close>, to the anchor room, and sends exactly one
  notice, to the curators room. The handler has no input that holds an earlier view.
\<close>

theorem C7_end_publishes_offline:
  assumes "getType event = ''m.room.message''"
    and "getContent_body event = Some b"
    and "split_space b = cmd # parts"
    and "cmd \<in> {''!end'', ''!e''}"
    and "roomId room = curators (rooms cfg)"
  shows "handler cfg pkg fetch_json event room =
      ([SendStateEvent (anchor (rooms cfg)) ''net.woke.anchor.view'' KindOffline [],
        SendNotice (curators (rooms cfg)) ''Broadcast ended.''], Returned)"
proof -
  from assms(4) have ne: "cmd \<noteq> []" and nb: "cmd \<noteq> ''!bot''" and ns: "cmd \<noteq> ''!streamer''"
    by auto
  from assms(4) have v: "cmd = ''!end'' \<or> cmd = ''!e''" by simp
  show ?thesis
    by (simp add: handler_curators [OF assms(1-3) ne nb ns assms(5)] curator_end [OF v]
        AnchorViewEventType_def)
qed

text \<open>
The witness of C7: \<open>!e now please\<close> in the curators room.
\<close>

theorem C7_end_publishes_offline_witness:
  "handler example_config example_pkg fetch_fails
     (message_in ''!curators:woke.net'' ''!e now please'')
     (room_with ''!curators:woke.net'' (members_at 50)) =
     ([SendStateEvent ''!anchor:woke.net'' ''net.woke.anchor.view'' KindOffline [],
       SendNotice ''!curators:woke.net'' ''Broadcast ended.''], Returned)"
proof -
  let ?cur = "''!curators:woke.net''"
  let ?ev = "message_in ?cur ''!e now please''"
  let ?room = "room_with ?cur (members_at 50)"
  have r: "roomId ?room = curators (rooms example_config)"
    by (simp add: room_with_def example_config_def example_rooms_def)
  have c: "''!e'' \<in> {''!end'', ''!e''}" by simp
  have t: "getType ?ev = ''m.room.message''"
    and g: "getContent_body ?ev = Some ''!e now please''"
    by (simp_all add: message_in_def)
  have s: "split_space ''!e now please'' = ''!e'' # [''now'', ''please'']" by simp
  from C7_end_publishes_offline [OF t g s c r, of example_pkg fetch_fails]
  show ?thesis by (simp add: example_config_def example_rooms_def)
qed

subsection \<open>C8: the announce command\<close>

text \<open>
  C8. For \<open>!announce\<close> or \<open>!a\<close> accepted in the curators room, with \<open>T\<close> the
  argument tokens joined by single spaces, the handler makes exactly three calls: it sets
  the topic of the anchor room to \<open>T\<close>, sends \<open>T\<close> as a notice to the announcements room
  and sends the notice \<open>Announcement sent.\<close> to the curators room. When there is an argument,
  the body is the command, one space and \<open>T\<close>.
\<close>

theorem C8_announce:
  assumes "getType event = ''m.room.message''"
    and "getContent_body event = Some b"
    and "split_space b = cmd # parts"
    and "cmd \<in> {''!announce'', ''!a''}"
    and "roomId room = curators (rooms cfg)"
  shows "handler cfg pkg fetch_json event room =
      ([SetRoomTopic (anchor (rooms cfg)) (join_space parts),
        SendNotice (announcements (rooms cfg)) (join_space parts),
        SendNotice (curators (rooms cfg)) ''Announcement sent.''], Returned)
    \<and> (parts \<noteq> [] \<longrightarrow> b = cmd @ '' '' @ join_space parts)"
proof -
  from assms(4) have ne: "cmd \<noteq> []" and nb: "cmd \<noteq> ''!bot''" and ns: "cmd \<noteq> ''!streamer''"
    by auto
  from assms(4) have v: "cmd = ''!announce'' \<or> cmd = ''!a''" by simp
  have "b = join_space (cmd # parts)"
    using join_split_space [of b] assms(3) by simp
  then have "parts \<noteq> [] \<longrightarrow> b = cmd @ '' '' @ join_space parts"
    by (simp add: join_space_Cons)
  then show ?thesis
    by (simp add: handler_curators [OF assms(1-3) ne nb ns assms(5)] curator_announce [OF v])
qed

text \<open>
The witness of C8: the scenario \<open>!announce Going live now\<close>.
\<close>

theorem C8_announce_witness:
  "handler example_config example_pkg fetch_fails
     (message_in ''!curators:woke.net'' ''!announce Going live now'')
     (room_with ''!curators:woke.net'' (members_at 50)) =
     ([SetRoomTopic ''!anchor:woke.net'' ''Going live now'',
       SendNotice ''!news:woke.net'' ''Going live now'',
       SendNotice ''!curators:woke.net'' ''Announcement sent.''], Returned)
   \<and> ''!announce Going live now'' = ''!announce'' @ '' '' @ join_space [''Going'', ''live'', ''now'']"
proof -
  let ?cur = "''!curators:woke.net''"
  let ?ev = "message_in ?cur ''!announce Going live now''"
  let ?room = "room_with ?cur (members_at 50)"
  have r: "roomId ?room = curators (rooms example_config)"
    by (simp add: room_with_def example_config_def example_rooms_def)
  have c: "''!announce'' \<in> {''!announce'', ''!a''}" by simp
  have t: "getType ?ev = ''m.room.message''"
    and g: "getContent_body ?ev = Some ''!announce Going live now''"
    by (simp_all add: message_in_def)
  have s: "split_space ''!announce Going live now'' = ''!announce'' # [''Going'', ''live'', ''now'']"
    by simp
  from C8_announce [OF t g s c r, of example_pkg fetch_fails]
  show ?thesis by (simp add: example_config_def example_rooms_def)
qed

subsection \<open>C9: the streamer lookup\<close>

text \<open>
  C9, as amended. For \<open>!streamer\<close> with a non-empty name whose directory fetch succeeds,
  the name is compared with the slug of each entry after both are normalised by lower-casing
  and removing every character other than the letters \<open>a\<close> to \<open>z\<close> (a digit, a hyphen
  and a letter with an accent are removed alike). When no entry matches, the fetch is the only
  call and no message is sent. When an entry matches, exactly one message is sent, to the
  anchor room, and it refers to the first matching entry of the directory: its body is the
  name of the streamer, a colon and the address of the streamer's page, and the entry itself
  is attached.
\<close>

theorem C9_streamer_lookup:
  assumes "getType event = ''m.room.message''"
    and "getContent_body event = Some b"
    and "split_space b = ''!streamer'' # nm # rest"
    and "nm \<noteq> []"
    and "fetch_json (apiUrl cfg @ ''/streamers/index.json'') = Some streamers"
  shows "((\<forall>s \<in> set streamers.
             keep_az (lower_case_az (slug s)) \<noteq> keep_az (lower_case_az nm)) \<longrightarrow>
            handler cfg pkg fetch_json event room =
              ([Fetch (apiUrl cfg @ ''/streamers/index.json'')], Returned))
    \<and> (\<forall>i < length streamers.
          keep_az (lower_case_az (slug (streamers ! i))) = keep_az (lower_case_az nm) \<and>
          (\<forall>j < i. keep_az (lower_case_az (slug (streamers ! j))) \<noteq> keep_az (lower_case_az nm)) \<longrightarrow>
            handler cfg pkg fetch_json event room =
              ([Fetch (apiUrl cfg @ ''/streamers/index.json''),
                SendMessage (anchor (rooms cfg))
                  \<lparr> msgtype = ''m.notice'',
                    body = name (streamers ! i) @ '': '' @ anchorUrl cfg @ ''/streamers/''
                             @ slug (streamers ! i),
                    format = ''net.woke.streamer'',
                    net_woke_streamer = streamers ! i \<rparr>], Returned))"
proof -
  let ?P = "\<lambda>s. matchKey (slug s) = matchKey nm"
  have key: "\<And>s. keep_az (lower_case_az s) = matchKey s"
    by (simp add: matchKey_normal_key normal_key_def)
  note h = handler_streamer [OF assms(1-4), of cfg pkg fetch_json room]
  have none: "handler cfg pkg fetch_json event room =
      ([Fetch (apiUrl cfg @ ''/streamers/index.json'')], Returned)"
    if "\<forall>s \<in> set streamers. \<not> ?P s"
  proof -
    from that have "find ?P streamers = None" by (simp add: find_None_iff)
    with assms(5) show ?thesis by (simp add: h streamer_branch_def)
  qed
  have some: "handler cfg pkg fetch_json event room =
      ([Fetch (apiUrl cfg @ ''/streamers/index.json''),
        SendMessage (anchor (rooms cfg)) (streamer_message cfg (streamers ! i))], Returned)"
    if "i < length streamers" and "?P (streamers ! i)" and "\<forall>j < i. \<not> ?P (streamers ! j)" for i
  proof -
    from that have "find ?P streamers = Some (streamers ! i)"
      unfolding find_Some_iff by blast
    with assms(5) show ?thesis by (simp add: h streamer_branch_def)
  qed
  from none some show ?thesis unfolding key by (simp add: streamer_message_def)
qed

text \<open>
  The witness of C9: \<open>!streamer A.b-C now\<close> against a directory in which the slug
  \<open>a-b-c\<close> is the first of two that match, and a name that matches no entry.
\<close>

theorem C9_streamer_lookup_witness:
  "handler example_config example_pkg example_directory
      (message_in ''!anchor:woke.net'' ''!streamer A.b-C now'') (room_with ''!anchor:woke.net'' no_members) =
     ([Fetch ''https://api.woke.net/streamers/index.json'',
       SendMessage ''!anchor:woke.net''
         \<lparr> msgtype = ''m.notice'', body = ''ABC: https://woke.net/streamers/a-b-c'',
           format = ''net.woke.streamer'',
           net_woke_streamer = \<lparr> slug = ''a-b-c'', name = ''ABC'' \<rparr> \<rparr>], Returned)
   \<and> handler example_config example_pkg example_directory
      (message_in ''!anchor:woke.net'' ''!streamer nobody'') (room_with ''!anchor:woke.net'' no_members) =
     ([Fetch ''https://api.woke.net/streamers/index.json''], Returned)"
proof -
  let ?room = "room_with ''!anchor:woke.net'' no_members"
  let ?dir = "[\<lparr> slug = ''x-y'', name = ''XY'' \<rparr>, \<lparr> slug = ''a-b-c'', name = ''ABC'' \<rparr>,
           \<lparr> slug = ''abc'', name = ''Second'' \<rparr>]"
  have t: "\<And>b. getType (message_in ''!anchor:woke.net'' b) = ''m.room.message''"
    and g: "\<And>b. getContent_body (message_in ''!anchor:woke.net'' b) = Some b"
    by (simp_all add: message_in_def)
  have s1: "split_space ''!streamer A.b-C now'' = ''!streamer'' # ''A.b-C'' # [''now'']" by simp
  have s2: "split_space ''!streamer nobody'' = ''!streamer'' # ''nobody'' # []" by simp
  have n1: "''A.b-C'' \<noteq> []" and n2: "''nobody'' \<noteq> []" by simp_all
  have f: "example_directory (apiUrl example_config @ ''/streamers/index.json'') = Some ?dir"
    by (simp add: example_directory_def)
  have mk: "keep_az (lower_case_az ''A.b-C'') = ''abc''" "keep_az (lower_case_az ''a-b-c'') = ''abc''"
    "keep_az (lower_case_az ''x-y'') = ''xy''" "keep_az (lower_case_az ''abc'') = ''abc''"
    "keep_az (lower_case_az ''nobody'') = ''nobody''"
    by (simp_all add: keep_az_def small_of_def small_letters_def capital_letters_def)
  note w1 = C9_streamer_lookup [where fetch_json = example_directory and cfg = example_config
      and pkg = example_pkg and room = ?room, OF t g s1 n1 f, THEN conjunct2, rule_format, of 1]
  note w2 = C9_streamer_lookup [where fetch_json = example_directory and cfg = example_config
      and pkg = example_pkg and room = ?room, OF t g s2 n2 f, THEN conjunct1, rule_format]
  have e1: "handler example_config example_pkg example_directory
      (message_in ''!anchor:woke.net'' ''!streamer A.b-C now'') ?room =
     ([Fetch (apiUrl example_config @ ''/streamers/index.json''),
       SendMessage (anchor (rooms example_config))
         \<lparr> msgtype = ''m.notice'',
           body = name (?dir ! 1) @ '': '' @ anchorUrl example_config @ ''/streamers/'' @ slug (?dir ! 1),
           format = ''net.woke.streamer'', net_woke_streamer = ?dir ! 1 \<rparr>], Returned)"
    by (rule w1) (simp_all add: mk del: lower_case_az.simps)
  have e2: "handler example_config example_pkg example_directory
      (message_in ''!anchor:woke.net'' ''!streamer nobody'') ?room =
     ([Fetch (apiUrl example_config @ ''/streamers/index.json'')], Returned)"
    by (rule w2) (auto simp add: mk simp del: lower_case_az.simps)
  show ?thesis
    unfolding e1 e2 by (simp add: example_config_def example_rooms_def)
qed

text \<open>
  The counterexample of C9: the name \<open>Jos\<close> followed by U+00E9 against the slug \<open>jos\<close>.
  In lower case the name has four letters and the slug three, so with only the characters
  that are not letters removed the two differ and no message would be sent; the handler
  removes the letter U+00E9 as well and sends the message for the entry \<open>jos\<close>.
\<close>

theorem C9_counterexample:
  "lower_case_az name_with_accent = ''jos'' @ [CHR 0xC3, CHR 0xA9]
   \<and> lower_case_az ''jos'' = ''jos''
   \<and> lower_case_az name_with_accent \<noteq> lower_case_az ''jos''
   \<and> handler example_config example_pkg jos_directory
       (message_in ''!anchor:woke.net'' (''!streamer '' @ name_with_accent))
       (room_with ''!anchor:woke.net'' no_members) =
     ([Fetch ''https://api.woke.net/streamers/index.json'',
       SendMessage ''!anchor:woke.net''
         \<lparr> msgtype = ''m.notice'', body = ''Jos: https://woke.net/streamers/jos'',
           format = ''net.woke.streamer'',
           net_woke_streamer = \<lparr> slug = ''jos'', name = ''Jos'' \<rparr> \<rparr>], Returned)"
  by (simp add: handler_def truthy_def at_def message_in_def room_with_def example_config_def
      example_rooms_def streamer_branch_def streamer_message_def jos_directory_def
      name_with_accent_def is_upper_def is_lower_def to_lower_def small_of_def
      small_letters_def capital_letters_def)

subsection \<open>C10: the streamer command without a name\<close>

text \<open>
  C10. For \<open>!streamer\<close> whose first argument token is missing or empty, in any room, the
  handler makes no call: the directory is not fetched and no message is sent.
\<close>

theorem C10_streamer_without_name:
  assumes "getType event = ''m.room.message''"
    and "getContent_body event = Some b"
    and "split_space b = ''!streamer'' # parts"
    and "parts = [] \<or> hd parts = []"
  shows "handler cfg pkg fetch_json event room = ([], Returned)"
proof -
  have ne: "''!streamer'' \<noteq> []" by simp
  from assms(4) have nt: "\<not> truthy (at parts 0)"
    by (cases parts) (simp_all add: truthy_def at_def)
  have cc: "curator_commands cfg event ''!streamer'' parts = []"
    by (simp add: curator_commands_def)
  show ?thesis
    unfolding handler_message [OF assms(1-3) ne] using nt cc by simp
qed

text \<open>
The witness of C10: \<open>!streamer\<close>, two spaces and a name, in the curators room.
\<close>

theorem C10_streamer_without_name_witness:
  "handler example_config example_pkg example_directory
      (message_in ''!curators:woke.net'' ''!streamer  abc'')
      (room_with ''!curators:woke.net'' (members_at 100)) = ([], Returned)"
proof -
  let ?ev = "message_in ''!curators:woke.net'' ''!streamer  abc''"
  have t: "getType ?ev = ''m.room.message''"
    and g: "getContent_body ?ev = Some ''!streamer  abc''"
    by (simp_all add: message_in_def)
  have s: "split_space ''!streamer  abc'' = ''!streamer'' # [[], ''abc'']" by simp
  have p: "[[], ''abc''] = [] \<or> hd [[], ''abc''] = []" by simp
  from C10_streamer_without_name [OF t g s p]
  show ?thesis .
qed

end
